theory Spec2Isabelle
  imports Complex_Main
begin

section \<open>Python values, exceptions and metadata records\<close>

text \<open>
  The exceptions that the modelled functions of \<^verbatim>\<open>mtuq/dataset.py\<close> and
  \<^verbatim>\<open>mtuq/graphics/uq/depth.py\<close> can raise. \<open>Exception\<close> is Python's base class,
  raised as such by \<^verbatim>\<open>Dataset.select\<close>.
\<close>

datatype py_error =
    AssertionError
  | AttributeError
  | IndexError
  | TypeError
  | ValueError
  | NotImplementedError
  | OverflowError
  | Exception

text \<open>
  \<^verbatim>\<open>trace.stats\<close> carries the three codes from which identifiers are built. The
  station metadata attached to a stream extends them with coordinates (a station
  object is taken to carry the three codes as strings, as the stats it is built from
  do); the origin metadata holds the event's coordinates (its fields are prefixed,
  since a record field name is global).
\<close>

record Stats =
  network :: string
  station :: string
  location :: string

record Station = Stats +
  latitude :: real
  longitude :: real

record Origin =
  origin_latitude :: real
  origin_longitude :: real
  depth_in_m :: real

text \<open>
  A trace: its stats, its samples, and the optional attribute \<^verbatim>\<open>weight\<close>
  (\<open>None\<close> when the attribute is not set). Samples are real numbers: the NaN of
  floating-point data is not modelled.
\<close>

record Trace =
  stats :: Stats
  data :: "real list"
  weight :: "real option"

text \<open>
  An ObsPy stream with the attributes that \<^verbatim>\<open>Dataset\<close> reads and writes. Every
  attribute that \<^verbatim>\<open>hasattr\<close> or a \<^verbatim>\<open>try\<close> block tests for is optional; \<open>None\<close>
  means that the attribute does not exist on the object.
\<close>

record Stream =
  traces :: "Trace list"
  stream_station :: "Station option"
  stream_origin :: "Origin option"
  stream_id :: "string option"
  tags :: "string list option"
  distance_in_m :: "real option"
  azimuth :: "real option"

text \<open>The Python objects that a caller can hand to the methods of a Dataset.\<close>

datatype pyobj =
    PyNone
  | PyInt int
  | PyFloat real
  | PyStr string
  | PyList "pyobj list"
  | PyStream Stream

text \<open>
  \<^verbatim>\<open>class Dataset(list)\<close>: the list of streams and the attribute \<^verbatim>\<open>id\<close>.
\<close>

record Dataset =
  dataset_id :: "string option"
  streams :: "Stream list"

text \<open>
  \<^verbatim>\<open>obspy.geodetics.gps2dist_azimuth\<close> is a library function outside the
  repository; it is a parameter of the model. It returns distance, azimuth and
  back azimuth, or raises.
\<close>

type_synonym geodesy = "real \<Rightarrow> real \<Rightarrow> real \<Rightarrow> real \<Rightarrow> py_error + (real \<times> real \<times> real)"

section \<open>Dataset.append\<close>

text \<open>\<^verbatim>\<open>'.'.join([x.network, x.station, x.location])\<close>\<close>

definition join_codes :: "'a Stats_scheme \<Rightarrow> string" where
  "join_codes x = network x @ ''.'' @ station x @ ''.'' @ location x"

text \<open>
  Lines 44--53. The \<^verbatim>\<open>try\<close> block reads \<^verbatim>\<open>stream.station\<close>; when that attribute is
  missing, the bare \<^verbatim>\<open>except\<close> falls back to \<^verbatim>\<open>stream[0].stats\<close>, and
  \<^verbatim>\<open>stream[0]\<close> raises IndexError on a stream without traces.
\<close>

definition unique_identifier :: "Stream \<Rightarrow> py_error + string" where
  "unique_identifier s =
     (case stream_station s of
        Some st \<Rightarrow> Inr (join_codes st)
      | None \<Rightarrow>
          (case traces s of
             [] \<Rightarrow> Inl IndexError
           | tr # _ \<Rightarrow> Inr (join_codes (stats tr))))"

text \<open>
  Lines 44--68: what \<^verbatim>\<open>append\<close> does to the stream object before it is stored.
  The result is the updated stream and the warnings emitted.
\<close>

definition prepare_stream :: "geodesy \<Rightarrow> Stream \<Rightarrow> py_error + (Stream \<times> string list)" where
  "prepare_stream gps s =
     (case unique_identifier s of
        Inl e \<Rightarrow> Inl e
      | Inr i \<Rightarrow>
          (let s1 = s\<lparr>stream_id := Some i\<rparr>;
               s2 = (case tags s1 of None \<Rightarrow> s1\<lparr>tags := Some []\<rparr> | Some _ \<Rightarrow> s1)
           in case stream_station s2 of
                None \<Rightarrow> Inr (s2, [''Stream lacks station metadata''])
              | Some st \<Rightarrow>
                  (case stream_origin s2 of
                     None \<Rightarrow> Inr (s2, [''Stream lacks origin metadata''])
                   | Some og \<Rightarrow>
                       (case gps (origin_latitude og) (origin_longitude og)
                                 (latitude st) (longitude st) of
                          Inl e \<Rightarrow> Inl e
                        | Inr (d, a, _) \<Rightarrow>
                            Inr (s2\<lparr>distance_in_m := Some d, azimuth := Some a\<rparr>, [])))))"

text \<open>
  \<^verbatim>\<open>Dataset.append(self, stream)\<close>. The outcome is the exception raised or the
  warnings emitted, paired with the Dataset after the call. The \<^verbatim>\<open>assert\<close> of line 40
  rejects everything that is not a Stream.
\<close>

definition Dataset_append ::
  "geodesy \<Rightarrow> Dataset \<Rightarrow> pyobj \<Rightarrow> (py_error + string list) \<times> Dataset" where
  "Dataset_append gps ds x =
     (case x of
        PyStream s \<Rightarrow>
          (case prepare_stream gps s of
             Inl e \<Rightarrow> (Inl e, ds)
           | Inr (s', w) \<Rightarrow> (Inr w, ds\<lparr>streams := streams ds @ [s']\<rparr>))
      | _ \<Rightarrow> (Inl AssertionError, ds))"

fun is_stream :: "pyobj \<Rightarrow> bool" where
  "is_stream (PyStream _) = True"
| "is_stream _ = False"

fun is_str :: "pyobj \<Rightarrow> bool" where
  "is_str (PyStr _) = True"
| "is_str _ = False"

section \<open>Dataset.tag_add and the constructor\<close>

text \<open>
  Lines 226--228, the loop of \<^verbatim>\<open>tag_add\<close> over the streams. \<^verbatim>\<open>stream.tags\<close> raises
  AttributeError on a stream without the attribute; the streams visited before keep
  the tag they were given.
\<close>

fun tag_add_loop :: "string \<Rightarrow> Stream list \<Rightarrow> (py_error + unit) \<times> Stream list" where
  "tag_add_loop tag [] = (Inr (), [])"
| "tag_add_loop tag (s # ss) =
     (case tags s of
        None \<Rightarrow> (Inl AttributeError, s # ss)
      | Some ts \<Rightarrow>
          (let s' = (if tag \<in> set ts then s else s\<lparr>tags := Some (ts @ [tag])\<rparr>)
           in case tag_add_loop tag ss of (r, ss') \<Rightarrow> (r, s' # ss')))"

text \<open>
  \<^verbatim>\<open>Dataset.tag_add(self, tag)\<close>. The test \<^verbatim>\<open>type(tag) not in [str, unicode]\<close> is
  that of Python 2, where both types are strings; \<open>PyStr\<close> stands for either.
\<close>

definition Dataset_tag_add :: "Dataset \<Rightarrow> pyobj \<Rightarrow> (py_error + unit) \<times> Dataset" where
  "Dataset_tag_add ds tag =
     (case tag of
        PyStr t \<Rightarrow> (case tag_add_loop t (streams ds) of (r, ss) \<Rightarrow> (r, ds\<lparr>streams := ss\<rparr>))
      | _ \<Rightarrow> (Inl TypeError, ds))"

text \<open>Lines 29--30 of the constructor: \<^verbatim>\<open>for stream in streams: self.append(stream)\<close>.\<close>

fun append_all ::
  "geodesy \<Rightarrow> Dataset \<Rightarrow> pyobj list \<Rightarrow> (py_error + string list) \<times> Dataset" where
  "append_all gps ds [] = (Inr [], ds)"
| "append_all gps ds (x # xs) =
     (case Dataset_append gps ds x of
        (Inl e, ds') \<Rightarrow> (Inl e, ds')
      | (Inr w, ds') \<Rightarrow>
          (case append_all gps ds' xs of
             (Inl e, ds'') \<Rightarrow> (Inl e, ds'')
           | (Inr w', ds'') \<Rightarrow> (Inr (w @ w'), ds'')))"

text \<open>Lines 32--33 of the constructor: \<^verbatim>\<open>for tag in copy(tags): self.tag_add(tag)\<close>.\<close>

fun tag_add_all :: "Dataset \<Rightarrow> pyobj list \<Rightarrow> (py_error + unit) \<times> Dataset" where
  "tag_add_all ds [] = (Inr (), ds)"
| "tag_add_all ds (t # ts) =
     (case Dataset_tag_add ds t of
        (Inl e, ds') \<Rightarrow> (Inl e, ds')
      | (Inr _, ds') \<Rightarrow> tag_add_all ds' ts)"

text \<open>
  \<^verbatim>\<open>Dataset.__init__(self, streams=[], id=None, tags=[])\<close>. A constructor that raises
  yields no object; otherwise the new Dataset and the warnings of its appends.
\<close>

definition Dataset_init ::
  "geodesy \<Rightarrow> pyobj list \<Rightarrow> string option \<Rightarrow> pyobj list \<Rightarrow> py_error + (Dataset \<times> string list)" where
  "Dataset_init gps xs i tgs =
     (case append_all gps \<lparr>dataset_id = i, streams = []\<rparr> xs of
        (Inl e, _) \<Rightarrow> Inl e
      | (Inr w, ds) \<Rightarrow>
          (case tag_add_all ds tgs of
             (Inl e, _) \<Rightarrow> Inl e
           | (Inr _, ds') \<Rightarrow> Inr (ds', w)))"

section \<open>Dataset.select\<close>

text \<open>
  The three \<^verbatim>\<open>lambda\<close> predicates of lines 78--87. Reading \<^verbatim>\<open>stream.station\<close> or
  \<^verbatim>\<open>stream.origin\<close> raises AttributeError when the stream lacks the attribute;
  \<^verbatim>\<open>and\<close> does not read the origin of a stream whose station differs.
\<close>

definition station_matches :: "Station \<Rightarrow> Stream \<Rightarrow> py_error + bool" where
  "station_matches st s =
     (case stream_station s of None \<Rightarrow> Inl AttributeError | Some x \<Rightarrow> Inr (x = st))"

definition origin_matches :: "Origin \<Rightarrow> Stream \<Rightarrow> py_error + bool" where
  "origin_matches og s =
     (case stream_origin s of None \<Rightarrow> Inl AttributeError | Some x \<Rightarrow> Inr (x = og))"

definition station_and_origin_match :: "Station \<Rightarrow> Origin \<Rightarrow> Stream \<Rightarrow> py_error + bool" where
  "station_and_origin_match st og s =
     (case station_matches st s of
        Inl e \<Rightarrow> Inl e
      | Inr False \<Rightarrow> Inr False
      | Inr True \<Rightarrow> origin_matches og s)"

text \<open>The built-in \<^verbatim>\<open>filter\<close> of Python 2, with a predicate that may raise.\<close>

fun filter_streams :: "(Stream \<Rightarrow> py_error + bool) \<Rightarrow> Stream list \<Rightarrow> py_error + Stream list" where
  "filter_streams p [] = Inr []"
| "filter_streams p (s # ss) =
     (case p s of
        Inl e \<Rightarrow> Inl e
      | Inr b \<Rightarrow>
          (case filter_streams p ss of
             Inl e \<Rightarrow> Inl e
           | Inr r \<Rightarrow> Inr (if b then s # r else r)))"

text \<open>\<^verbatim>\<open>self.__class__(id=self.id, streams=filter(p, self))\<close>\<close>

definition select_by ::
  "geodesy \<Rightarrow> Dataset \<Rightarrow> (Stream \<Rightarrow> py_error + bool) \<Rightarrow> py_error + (Dataset \<times> string list)" where
  "select_by gps ds p =
     (case filter_streams p (streams ds) of
        Inl e \<Rightarrow> Inl e
      | Inr ss \<Rightarrow> Dataset_init gps (map PyStream ss) (dataset_id ds) [])"

text \<open>
  \<^verbatim>\<open>Dataset.select(self, origin=None, station=None)\<close>. A criterion is given when
  the argument is truthy: \<open>None\<close> stands for the default \<^verbatim>\<open>None\<close>, \<open>Some\<close> for a
  metadata object.
\<close>

definition Dataset_select ::
  "geodesy \<Rightarrow> Dataset \<Rightarrow> Origin option \<Rightarrow> Station option \<Rightarrow> py_error + (Dataset \<times> string list)" where
  "Dataset_select gps ds origin stn =
     (case (origin, stn) of
        (Some og, Some st) \<Rightarrow> select_by gps ds (station_and_origin_match st og)
      | (None, Some st) \<Rightarrow> select_by gps ds (station_matches st)
      | (Some og, None) \<Rightarrow> select_by gps ds (origin_matches og)
      | (None, None) \<Rightarrow> Inl Exception)"

section \<open>Dataset.map\<close>




section \<open>Floating-point values\<close>

text \<open>
  A float: a finite value, given by the real number it stands for, or one of the
  three special values of IEEE arithmetic. Negation, absolute value and comparison
  of finite floats are exact; the operations that round are parameters of the model
  (see the likelihood transform below).
\<close>

datatype npfloat = Finite real | PosInf | NegInf | NaN

section \<open>Dataset.max\<close>

text \<open>\<^verbatim>\<open>array.max()\<close>: NumPy raises ValueError on an array without elements.\<close>

fun array_max :: "'a::linorder list \<Rightarrow> py_error + 'a" where
  "array_max [] = Inl ValueError"
| "array_max (x # xs) = Inr (fold max xs x)"

text \<open>\<^verbatim>\<open>trace.data.max() > max_all\<close>, where \<^verbatim>\<open>max_all\<close> starts as \<^verbatim>\<open>-np.inf\<close>.\<close>

fun exceeds :: "real \<Rightarrow> npfloat \<Rightarrow> bool" where
  "exceeds m (Finite a) = (a < m)"
| "exceeds m NegInf = True"
| "exceeds m PosInf = False"
| "exceeds m NaN = False"

text \<open>\<^verbatim>\<open>not getattr(trace, 'weight', 1.)\<close>\<close>

definition weight_is_falsy :: "Trace \<Rightarrow> bool" where
  "weight_is_falsy tr = ((case weight tr of None \<Rightarrow> 1 | Some w \<Rightarrow> w) = 0)"

text \<open>Lines 150--154, the loop over the traces of one stream.\<close>

fun max_over_traces :: "npfloat \<Rightarrow> Trace list \<Rightarrow> py_error + npfloat" where
  "max_over_traces max_all [] = Inr max_all"
| "max_over_traces max_all (tr # trs) =
     (if weight_is_falsy tr then max_over_traces max_all trs
      else
        (case array_max (data tr) of
           Inl e \<Rightarrow> Inl e
         | Inr m \<Rightarrow>
             (if exceeds m max_all
              then (case array_max (map abs (data tr)) of
                      Inl e \<Rightarrow> Inl e
                    | Inr a \<Rightarrow> max_over_traces (Finite a) trs)
              else max_over_traces max_all trs)))"

text \<open>Lines 149--154, the loop over the streams.\<close>

fun max_over_streams :: "npfloat \<Rightarrow> Stream list \<Rightarrow> py_error + npfloat" where
  "max_over_streams max_all [] = Inr max_all"
| "max_over_streams max_all (s # ss) =
     (case max_over_traces max_all (traces s) of
        Inl e \<Rightarrow> Inl e
      | Inr m \<Rightarrow> max_over_streams m ss)"

text \<open>\<^verbatim>\<open>Dataset.max(self)\<close>\<close>

definition Dataset_max :: "Dataset \<Rightarrow> py_error + npfloat" where
  "Dataset_max ds = max_over_streams NegInf (streams ds)"

text \<open>
  The specification's wording, for comparison with \<open>Dataset_max\<close>: the maximum
  absolute sample amplitude over all traces of all records whose weight is not falsy,
  and minus infinity when there is no such sample.
\<close>

definition counted_samples :: "Dataset \<Rightarrow> real list" where
  "counted_samples ds =
     concat (map data (filter (\<lambda>tr. \<not> weight_is_falsy tr) (concat (map traces (streams ds)))))"

definition max_abs_amplitude :: "Dataset \<Rightarrow> npfloat" where
  "max_abs_amplitude ds =
     (case map abs (counted_samples ds) of
        [] \<Rightarrow> NegInf
      | x # xs \<Rightarrow> Finite (fold max xs x))"

section \<open>Dataset.sort\_by\_distance\<close>

text \<open>The key function is applied to every element before anything is moved.\<close>

fun sort_keys :: "('a \<Rightarrow> py_error + 'k) \<Rightarrow> 'a list \<Rightarrow> py_error + 'k list" where
  "sort_keys key [] = Inr []"
| "sort_keys key (x # xs) =
     (case key x of
        Inl e \<Rightarrow> Inl e
      | Inr k \<Rightarrow> (case sort_keys key xs of Inl e \<Rightarrow> Inl e | Inr ks \<Rightarrow> Inr (k # ks)))"

text \<open>
  Python's built-in \<^verbatim>\<open>list.sort(key=..., reverse=...)\<close>: a stable sort of the
  elements by their keys; with \<^verbatim>\<open>reverse=True\<close> the list is reversed, sorted and
  reversed again, so that elements with equal keys keep their original order.
\<close>

definition list_sort ::
  "('a \<Rightarrow> py_error + 'k::linorder) \<Rightarrow> bool \<Rightarrow> 'a list \<Rightarrow> py_error + 'a list" where
  "list_sort key reverse xs =
     (case sort_keys key xs of
        Inl e \<Rightarrow> Inl e
      | Inr ks \<Rightarrow>
          (let keyed = zip ks xs
           in Inr (map snd (if reverse then rev (sort_key fst (rev keyed))
                            else sort_key fst keyed))))"

text \<open>\<^verbatim>\<open>Dataset.sort_by_function(self, function, reverse=False)\<close>, in place.\<close>

definition Dataset_sort_by_function ::
  "Dataset \<Rightarrow> (Stream \<Rightarrow> py_error + 'k::linorder) \<Rightarrow> bool \<Rightarrow> (py_error + unit) \<times> Dataset" where
  "Dataset_sort_by_function ds function reverse =
     (case list_sort function reverse (streams ds) of
        Inl e \<Rightarrow> (Inl e, ds)
      | Inr ss \<Rightarrow> (Inr (), ds\<lparr>streams := ss\<rparr>))"

text \<open>\<^verbatim>\<open>lambda data: data.distance_in_m\<close>\<close>

definition distance_key :: "Stream \<Rightarrow> py_error + real" where
  "distance_key s = (case distance_in_m s of None \<Rightarrow> Inl AttributeError | Some d \<Rightarrow> Inr d)"

text \<open>\<^verbatim>\<open>Dataset.sort_by_distance(self, reverse=False)\<close>\<close>

definition Dataset_sort_by_distance :: "Dataset \<Rightarrow> bool \<Rightarrow> (py_error + unit) \<times> Dataset" where
  "Dataset_sort_by_distance ds reverse = Dataset_sort_by_function ds distance_key reverse"

section \<open>Score surfaces (graphics/uq/depth.py)\<close>

text \<open>
  An \<^verbatim>\<open>xarray.DataArray\<close>: its \<^verbatim>\<open>shape\<close> and its \<^verbatim>\<open>values\<close> (the field \<open>vals\<close>) in
  row-major (C) order, as NumPy stores them. An array is well formed when it has as many values as its shape
  says.
\<close>

record 'a DataArray =
  shape :: "nat list"
  vals :: "'a list"




text \<open>
  \<^verbatim>\<open>ds[:,:,:,:,:,:,_i]\<close>, flattened in row-major order. xarray raises IndexError
  ("too many indices") when the array has fewer than seven axes, pads the key with
  full slices when it has more, and raises IndexError when \<^verbatim>\<open>_i\<close> is not below the
  size of the seventh axis.
\<close>

definition slice_seventh :: "'a DataArray \<Rightarrow> nat \<Rightarrow> py_error + 'a list" where
  "slice_seventh ds i =
     (if length (shape ds) < 7 then Inl IndexError
      else if shape ds ! 6 \<le> i then Inl IndexError
      else
        (let outer = prod_list (take 6 (shape ds));
             n = shape ds ! 6;
             inner = prod_list (drop 7 (shape ds))
         in Inr (concat (map (\<lambda>j. take inner (drop ((j * n + i) * inner) (vals ds)))
                          [0..<outer]))))"

text \<open>\<^verbatim>\<open>sliced.min()\<close> and \<^verbatim>\<open>sliced.max()\<close>: ValueError on a slice without elements.\<close>

fun array_min :: "'a::linorder list \<Rightarrow> py_error + 'a" where
  "array_min [] = Inl ValueError"
| "array_min (x # xs) = Inr (fold min xs x)"

text \<open>The position of the first occurrence of a value in a flattened array.\<close>

fun first_index :: "'a \<Rightarrow> 'a list \<Rightarrow> nat" where
  "first_index v [] = 0"
| "first_index v (x # xs) = (if x = v then 0 else Suc (first_index v xs))"

text \<open>
  \<^verbatim>\<open>int(sliced.argmin())\<close> and \<^verbatim>\<open>int(sliced.argmax())\<close>: the flat index of the first
  occurrence of the extreme value; ValueError on a slice without elements.
\<close>

definition array_argmin :: "'a::linorder list \<Rightarrow> py_error + nat" where
  "array_argmin xs =
     (case array_min xs of Inl e \<Rightarrow> Inl e | Inr m \<Rightarrow> Inr (first_index m xs))"

definition array_argmax :: "'a::linorder list \<Rightarrow> py_error + nat" where
  "array_argmax xs =
     (case array_max xs of Inl e \<Rightarrow> Inl e | Inr m \<Rightarrow> Inr (first_index m xs))"

text \<open>
  The loop shared by \<^verbatim>\<open>_min_dataarray\<close> and \<^verbatim>\<open>_max_dataarray\<close>, over the values of
  \<^verbatim>\<open>_i\<close> still to come; the two functions differ in the reductions only.
\<close>

fun reduce_loop ::
  "('a list \<Rightarrow> py_error + 'a) \<Rightarrow> ('a list \<Rightarrow> py_error + nat) \<Rightarrow> 'a DataArray \<Rightarrow> nat list
     \<Rightarrow> py_error + ('a list \<times> nat list)" where
  "reduce_loop red arg ds [] = Inr ([], [])"
| "reduce_loop red arg ds (i # is) =
     (case slice_seventh ds i of
        Inl e \<Rightarrow> Inl e
      | Inr sliced \<Rightarrow>
          (case red sliced of
             Inl e \<Rightarrow> Inl e
           | Inr v \<Rightarrow>
               (case arg sliced of
                  Inl e \<Rightarrow> Inl e
                | Inr k \<Rightarrow>
                    (case reduce_loop red arg ds is of
                       Inl e \<Rightarrow> Inl e
                     | Inr (vs, ks) \<Rightarrow> Inr (v # vs, k # ks)))))"

text \<open>
  \<^verbatim>\<open>range(ds.shape[-1])\<close>: indexing the shape of an array without axes raises
  IndexError.
\<close>

definition last_axis_range :: "'a DataArray \<Rightarrow> py_error + nat list" where
  "last_axis_range ds = (if shape ds = [] then Inl IndexError else Inr [0..<last (shape ds)])"

text \<open>\<^verbatim>\<open>_min_dataarray(ds)\<close> and \<^verbatim>\<open>_max_dataarray(ds)\<close>\<close>

definition min_dataarray :: "'a::linorder DataArray \<Rightarrow> py_error + ('a list \<times> nat list)" where
  "min_dataarray ds =
     (case last_axis_range ds of
        Inl e \<Rightarrow> Inl e
      | Inr r \<Rightarrow> reduce_loop array_min array_argmin ds r)"

definition max_dataarray :: "'a::linorder DataArray \<Rightarrow> py_error + ('a list \<times> nat list)" where
  "max_dataarray ds =
     (case last_axis_range ds of
        Inl e \<Rightarrow> Inl e
      | Inr r \<Rightarrow> reduce_loop array_max array_argmax ds r)"



section \<open>The likelihood transform\<close>







section \<open>Example inputs\<close>

text \<open>A geodesy routine that answers every query, and an empty Dataset.\<close>

definition constant_geodesy :: geodesy where
  "constant_geodesy lat1 lon1 lat2 lon2 = Inr (1000, 90, 270)"

definition empty_dataset :: Dataset where
  "empty_dataset = \<lparr>dataset_id = None, streams = []\<rparr>"

text \<open>Station and event metadata, traces and streams.\<close>

definition anmo_stats :: Stats where
  "anmo_stats = \<lparr>network = ''IU'', station = ''ANMO'', location = ''00''\<rparr>"

definition anmo :: Station where
  "anmo = \<lparr>network = ''IU'', station = ''ANMO'', location = ''00'',
           latitude = 34.9, longitude = -106.5\<rparr>"

definition cola :: Station where
  "cola = \<lparr>network = ''IU'', station = ''COLA'', location = ''10'',
           latitude = 64.9, longitude = -147.9\<rparr>"

definition event :: Origin where
  "event = \<lparr>origin_latitude = 61.5, origin_longitude = -149.9, depth_in_m = 33000\<rparr>"

definition anmo_trace :: Trace where
  "anmo_trace = \<lparr>stats = anmo_stats, data = [1, -2], weight = None\<rparr>"

text \<open>A stream as a reader hands it over: one trace and no further attribute.\<close>

definition bare_stream :: Stream where
  "bare_stream = \<lparr>traces = [anmo_trace], stream_station = None, stream_origin = None,
     stream_id = None, tags = None, distance_in_m = None, azimuth = None\<rparr>"

text \<open>\<^verbatim>\<open>Stream()\<close>: no traces and no further attribute.\<close>

definition traceless_stream :: Stream where
  "traceless_stream = \<lparr>traces = [], stream_station = None, stream_origin = None,
     stream_id = None, tags = None, distance_in_m = None, azimuth = None\<rparr>"

text \<open>Two streams as \<^verbatim>\<open>append\<close> leaves them, with station and origin metadata.\<close>

definition anmo_stream :: Stream where
  "anmo_stream = \<lparr>traces = [anmo_trace], stream_station = Some anmo, stream_origin = Some event,
     stream_id = Some ''IU.ANMO.00'', tags = Some [], distance_in_m = Some 1000,
     azimuth = Some 90\<rparr>"

definition cola_stream :: Stream where
  "cola_stream = \<lparr>traces = [], stream_station = Some cola, stream_origin = Some event,
     stream_id = Some ''IU.COLA.10'', tags = Some [''bw''], distance_in_m = Some 1000,
     azimuth = Some 90\<rparr>"

definition two_stations :: Dataset where
  "two_stations = \<lparr>dataset_id = Some ''20090407201255351'', streams = [cola_stream, anmo_stream]\<rparr>"

text \<open>
  A geodesy routine that, like \<^verbatim>\<open>gps2dist_azimuth\<close>, raises ValueError when a latitude
  lies outside \<open>[-90, 90]\<close>; an origin with such a latitude; and streams with one
  trace that carry station metadata only, station and origin metadata, and station
  metadata with the out-of-range origin.
\<close>

definition checking_geodesy :: geodesy where
  "checking_geodesy lat1 lon1 lat2 lon2 =
     (if lat1 < -90 \<or> 90 < lat1 \<or> lat2 < -90 \<or> 90 < lat2 then Inl ValueError
      else Inr (1000, 90, 270))"

definition misplaced_event :: Origin where
  "misplaced_event = \<lparr>origin_latitude = 100, origin_longitude = 0, depth_in_m = 0\<rparr>"

definition stationed_stream :: Stream where
  "stationed_stream = bare_stream\<lparr>stream_station := Some cola\<rparr>"

definition located_stream :: Stream where
  "located_stream = bare_stream\<lparr>stream_station := Some cola, stream_origin := Some event\<rparr>"

definition misplaced_stream :: Stream where
  "misplaced_stream =
     bare_stream\<lparr>stream_station := Some cola, stream_origin := Some misplaced_event\<rparr>"

text \<open>
  Datasets for \<^verbatim>\<open>select\<close>: one whose first record has another station and no origin;
  one holding a record with an origin but neither traces nor station; and one holding
  a record whose station and origin were attached after it was read.
\<close>

definition unlocated_first :: Dataset where
  "unlocated_first = \<lparr>dataset_id = Some ''20090407201255351'',
     streams = [anmo_stream\<lparr>stream_origin := None, distance_in_m := None, azimuth := None\<rparr>,
                cola_stream]\<rparr>"

definition one_orphan :: Dataset where
  "one_orphan = \<lparr>dataset_id = None,
     streams = [traceless_stream\<lparr>stream_origin := Some event\<rparr>]\<rparr>"

definition one_located :: Dataset where
  "one_located = \<lparr>dataset_id = None, streams = [located_stream]\<rparr>"

text \<open>A Dataset holding one stream without station metadata.\<close>

definition one_bare :: Dataset where
  "one_bare = \<lparr>dataset_id = None,
     streams = [bare_stream\<lparr>stream_id := Some ''IU.ANMO.00'', tags := Some []\<rparr>]\<rparr>"





text \<open>The Dataset \<open>two_stations\<close> after \<^verbatim>\<open>tag_add('bw')\<close>.\<close>

definition two_stations_bw :: Dataset where
  "two_stations_bw = \<lparr>dataset_id = Some ''20090407201255351'',
     streams = [cola_stream, anmo_stream\<lparr>tags := Some [''bw'']\<rparr>]\<rparr>"

text \<open>Two records in ascending order of distance, and the same two in descending order.\<close>

definition far_stream :: Stream where
  "far_stream = anmo_stream\<lparr>distance_in_m := Some 2000\<rparr>"

definition near_far :: Dataset where
  "near_far = \<lparr>dataset_id = None, streams = [cola_stream, far_stream]\<rparr>"

definition far_near :: Dataset where
  "far_near = \<lparr>dataset_id = None, streams = [far_stream, cola_stream]\<rparr>"

text \<open>
  Two single-trace records: the first peaks at \<open>3\<close>, the second has the single
  sample \<open>-7\<close>.
\<close>

definition negative_peak :: Dataset where
  "negative_peak = \<lparr>dataset_id = None,
     streams = [bare_stream\<lparr>traces := [anmo_trace\<lparr>data := [3]\<rparr>]\<rparr>,
                bare_stream\<lparr>traces := [anmo_trace\<lparr>data := [-7]\<rparr>]\<rparr>]\<rparr>"

















section \<open>Properties of Dataset.append\<close>

text \<open>
  C2 (as amended). For every argument that is not a Stream, \<^verbatim>\<open>Dataset.append\<close> fails
  with AssertionError, the exception of the \<^verbatim>\<open>assert\<close> statement of line 40, and the
  Dataset is left unchanged by the failed call.
\<close>

theorem append_rejects_non_stream:
  "\<not> is_stream x \<Longrightarrow> Dataset_append gps ds x = (Inl AssertionError, ds)"
  by (cases x) (simp_all add: Dataset_append_def)

theorem append_rejects_non_stream_witness:
  "\<not> is_stream (PyStr ''abc'') \<and>
   Dataset_append constant_geodesy empty_dataset (PyStr ''abc'') = (Inl AssertionError, empty_dataset)"
  using append_rejects_non_stream [of "PyStr ''abc''" constant_geodesy empty_dataset] by simp

text \<open>
  C2 as stated fails: appending \<^verbatim>\<open>None\<close>, which is not record-shaped, does not raise
  TypeError.
\<close>

theorem append_type_error_counterexample:
  "\<not> is_stream PyNone \<and>
   fst (Dataset_append constant_geodesy empty_dataset PyNone) \<noteq> Inl TypeError"
  by (simp add: Dataset_append_def)

text \<open>Helper facts about the update that \<^verbatim>\<open>append\<close> applies to a stream.\<close>

lemma prepare_no_station:
  "stream_station s = None \<Longrightarrow> traces s \<noteq> [] \<Longrightarrow>
   prepare_stream gps s =
     Inr (s\<lparr>stream_id := Some (join_codes (stats (hd (traces s)))),
            tags := Some (case tags s of None \<Rightarrow> [] | Some ts \<Rightarrow> ts)\<rparr>,
          [''Stream lacks station metadata''])"
  by (cases "traces s")
     (auto simp: prepare_stream_def unique_identifier_def Let_def split: option.splits)

lemma prepare_empty_no_station:
  "stream_station s = None \<Longrightarrow> traces s = [] \<Longrightarrow> prepare_stream gps s = Inl IndexError"
  by (simp add: prepare_stream_def unique_identifier_def)

lemma prepare_geodesy_ok:
  assumes "traces s \<noteq> [] \<or> stream_station s \<noteq> None"
    and "\<And>st og. stream_station s = Some st \<Longrightarrow> stream_origin s = Some og \<Longrightarrow>
          \<exists>r. gps (origin_latitude og) (origin_longitude og) (latitude st) (longitude st) = Inr r"
  shows "\<exists>s' w i. prepare_stream gps s = Inr (s', w) \<and>
           unique_identifier s = Inr i \<and> stream_id s' = Some i"
proof -
  obtain i where i: "unique_identifier s = Inr i"
    using assms(1)
    by (cases "stream_station s"; cases "traces s") (auto simp: unique_identifier_def)
  show ?thesis
  proof (cases "stream_station s")
    case None
    then show ?thesis
      using i by (auto simp: prepare_stream_def Let_def split: option.splits)
  next
    case station: (Some st)
    show ?thesis
    proof (cases "stream_origin s")
      case None
      then show ?thesis
        using i station by (auto simp: prepare_stream_def Let_def split: option.splits)
    next
      case (Some og)
      from assms(2) [OF station Some] obtain d a b where
        "gps (origin_latitude og) (origin_longitude og) (latitude st) (longitude st) = Inr (d, a, b)"
        by (metis prod_cases3)
      then show ?thesis
        using i station Some by (auto simp: prepare_stream_def Let_def split: option.splits)
    qed
  qed
qed

lemma prepare_stream_idem:
  assumes "prepare_stream gps s = Inr (s', w)"
  shows "prepare_stream gps s' = Inr (s', w)"
  using assms
  by (auto simp: prepare_stream_def unique_identifier_def Let_def
      split: option.splits list.splits sum.splits prod.splits)

lemma prepare_station_only:
  "stream_station s = Some st \<Longrightarrow> stream_origin s = None \<Longrightarrow>
   prepare_stream gps s =
     Inr (s\<lparr>stream_id := Some (join_codes st),
            tags := Some (case tags s of None \<Rightarrow> [] | Some ts \<Rightarrow> ts)\<rparr>,
          [''Stream lacks origin metadata''])"
  by (auto simp: prepare_stream_def unique_identifier_def Let_def split: option.splits)

lemma prepare_station_origin:
  "stream_station s = Some st \<Longrightarrow> stream_origin s = Some og \<Longrightarrow>
   prepare_stream gps s =
     (case gps (origin_latitude og) (origin_longitude og) (latitude st) (longitude st) of
        Inl e \<Rightarrow> Inl e
      | Inr (d, a, b) \<Rightarrow>
          Inr (s\<lparr>stream_id := Some (join_codes st),
                 tags := Some (case tags s of None \<Rightarrow> [] | Some ts \<Rightarrow> ts),
                 distance_in_m := Some d, azimuth := Some a\<rparr>, []))"
  by (auto simp: prepare_stream_def unique_identifier_def Let_def
      split: option.splits sum.splits prod.splits)

text \<open>
  C9 (as amended). Appending a Stream without traces and without a \<^verbatim>\<open>station\<close>
  attribute raises IndexError from the identifier fallback; no warning is emitted and
  the Dataset is unchanged. A Stream with at least one trace and no \<^verbatim>\<open>station\<close>
  attribute is appended with the identifier \<^verbatim>\<open>network.station.location\<close> of the stats
  of its first trace, whether or not it has an origin. A Stream with station metadata
  gets its identifier from the codes of the station; it is appended when it has no
  origin, and when it has one and the geodesy routine returns, with distance and
  azimuth set. When the geodesy routine raises, \<^verbatim>\<open>append\<close> fails with that exception
  and the Dataset is unchanged.
\<close>

theorem append_identifier_fallback:
  "(traces s = [] \<and> stream_station s = None \<longrightarrow>
      Dataset_append gps ds (PyStream s) = (Inl IndexError, ds)) \<and>
   (traces s \<noteq> [] \<and> stream_station s = None \<longrightarrow>
      Dataset_append gps ds (PyStream s) =
        (Inr [''Stream lacks station metadata''],
         ds\<lparr>streams := streams ds @
            [s\<lparr>stream_id := Some (network (stats (hd (traces s))) @ ''.'' @
                                   station (stats (hd (traces s))) @ ''.'' @
                                   location (stats (hd (traces s)))),
               tags := Some (case tags s of None \<Rightarrow> [] | Some ts \<Rightarrow> ts)\<rparr>]\<rparr>)) \<and>
   (stream_station s = Some st \<and> stream_origin s = None \<longrightarrow>
      Dataset_append gps ds (PyStream s) =
        (Inr [''Stream lacks origin metadata''],
         ds\<lparr>streams := streams ds @
            [s\<lparr>stream_id := Some (network st @ ''.'' @ station st @ ''.'' @ location st),
               tags := Some (case tags s of None \<Rightarrow> [] | Some ts \<Rightarrow> ts)\<rparr>]\<rparr>)) \<and>
   (stream_station s = Some st \<and> stream_origin s = Some og \<and>
    gps (origin_latitude og) (origin_longitude og) (latitude st) (longitude st) = Inr (d, a, b) \<longrightarrow>
      Dataset_append gps ds (PyStream s) =
        (Inr [],
         ds\<lparr>streams := streams ds @
            [s\<lparr>stream_id := Some (network st @ ''.'' @ station st @ ''.'' @ location st),
               tags := Some (case tags s of None \<Rightarrow> [] | Some ts \<Rightarrow> ts),
               distance_in_m := Some d, azimuth := Some a\<rparr>]\<rparr>)) \<and>
   (stream_station s = Some st \<and> stream_origin s = Some og \<and>
    gps (origin_latitude og) (origin_longitude og) (latitude st) (longitude st) = Inl e \<longrightarrow>
      Dataset_append gps ds (PyStream s) = (Inl e, ds))"
proof (intro conjI impI)
  assume "traces s = [] \<and> stream_station s = None"
  then show "Dataset_append gps ds (PyStream s) = (Inl IndexError, ds)"
    by (simp add: Dataset_append_def prepare_empty_no_station)
next
  assume "traces s \<noteq> [] \<and> stream_station s = None"
  then show "Dataset_append gps ds (PyStream s) =
        (Inr [''Stream lacks station metadata''],
         ds\<lparr>streams := streams ds @
            [s\<lparr>stream_id := Some (network (stats (hd (traces s))) @ ''.'' @
                                   station (stats (hd (traces s))) @ ''.'' @
                                   location (stats (hd (traces s)))),
               tags := Some (case tags s of None \<Rightarrow> [] | Some ts \<Rightarrow> ts)\<rparr>]\<rparr>)"
    by (simp add: Dataset_append_def prepare_no_station join_codes_def)
next
  assume "stream_station s = Some st \<and> stream_origin s = None"
  then show "Dataset_append gps ds (PyStream s) =
        (Inr [''Stream lacks origin metadata''],
         ds\<lparr>streams := streams ds @
            [s\<lparr>stream_id := Some (network st @ ''.'' @ station st @ ''.'' @ location st),
               tags := Some (case tags s of None \<Rightarrow> [] | Some ts \<Rightarrow> ts)\<rparr>]\<rparr>)"
    by (simp add: Dataset_append_def prepare_station_only join_codes_def)
next
  assume "stream_station s = Some st \<and> stream_origin s = Some og \<and>
    gps (origin_latitude og) (origin_longitude og) (latitude st) (longitude st) = Inr (d, a, b)"
  then show "Dataset_append gps ds (PyStream s) =
        (Inr [],
         ds\<lparr>streams := streams ds @
            [s\<lparr>stream_id := Some (network st @ ''.'' @ station st @ ''.'' @ location st),
               tags := Some (case tags s of None \<Rightarrow> [] | Some ts \<Rightarrow> ts),
               distance_in_m := Some d, azimuth := Some a\<rparr>]\<rparr>)"
    by (simp add: Dataset_append_def prepare_station_origin join_codes_def)
next
  assume "stream_station s = Some st \<and> stream_origin s = Some og \<and>
    gps (origin_latitude og) (origin_longitude og) (latitude st) (longitude st) = Inl e"
  then show "Dataset_append gps ds (PyStream s) = (Inl e, ds)"
    by (simp add: Dataset_append_def prepare_station_origin)
qed

theorem append_identifier_fallback_witness:
  "Dataset_append checking_geodesy empty_dataset (PyStream traceless_stream) =
     (Inl IndexError, empty_dataset) \<and>
   Dataset_append checking_geodesy empty_dataset (PyStream bare_stream) =
     (Inr [''Stream lacks station metadata''],
      \<lparr>dataset_id = None,
       streams = [bare_stream\<lparr>stream_id := Some ''IU.ANMO.00'', tags := Some []\<rparr>]\<rparr>) \<and>
   Dataset_append checking_geodesy empty_dataset (PyStream stationed_stream) =
     (Inr [''Stream lacks origin metadata''],
      \<lparr>dataset_id = None,
       streams = [stationed_stream\<lparr>stream_id := Some ''IU.COLA.10'', tags := Some []\<rparr>]\<rparr>) \<and>
   Dataset_append checking_geodesy empty_dataset (PyStream located_stream) =
     (Inr [],
      \<lparr>dataset_id = None,
       streams = [located_stream\<lparr>stream_id := Some ''IU.COLA.10'', tags := Some [],
                                 distance_in_m := Some 1000, azimuth := Some 90\<rparr>]\<rparr>) \<and>
   Dataset_append checking_geodesy empty_dataset (PyStream misplaced_stream) =
     (Inl ValueError, empty_dataset)"
proof -
  have g: "checking_geodesy (origin_latitude event) (origin_longitude event)
             (latitude cola) (longitude cola) = Inr (1000, 90, 270)"
    "checking_geodesy (origin_latitude misplaced_event) (origin_longitude misplaced_event)
             (latitude cola) (longitude cola) = Inl ValueError"
    by (simp_all add: checking_geodesy_def event_def misplaced_event_def cola_def)
  have c: "network cola = ''IU''" "station cola = ''COLA''" "location cola = ''10''"
    by (simp_all add: cola_def)
  have m: "stream_station stationed_stream = Some cola" "stream_origin stationed_stream = None"
    "tags stationed_stream = None"
    "stream_station located_stream = Some cola" "stream_origin located_stream = Some event"
    "tags located_stream = None"
    "stream_station misplaced_stream = Some cola"
    "stream_origin misplaced_stream = Some misplaced_event"
    by (simp_all add: stationed_stream_def located_stream_def misplaced_stream_def
        bare_stream_def)
  have t: "Dataset_append checking_geodesy empty_dataset (PyStream traceless_stream) =
      (Inl IndexError, empty_dataset)"
    using append_identifier_fallback [where s = traceless_stream and gps = checking_geodesy
        and ds = empty_dataset]
    by (simp add: traceless_stream_def)
  have b: "Dataset_append checking_geodesy empty_dataset (PyStream bare_stream) =
     (Inr [''Stream lacks station metadata''],
      \<lparr>dataset_id = None,
       streams = [bare_stream\<lparr>stream_id := Some ''IU.ANMO.00'', tags := Some []\<rparr>]\<rparr>)"
    using append_identifier_fallback [where s = bare_stream and gps = checking_geodesy
        and ds = empty_dataset]
    by (simp add: bare_stream_def empty_dataset_def anmo_trace_def anmo_stats_def)
  have s: "Dataset_append checking_geodesy empty_dataset (PyStream stationed_stream) =
     (Inr [''Stream lacks origin metadata''],
      \<lparr>dataset_id = None,
       streams = [stationed_stream\<lparr>stream_id := Some ''IU.COLA.10'', tags := Some []\<rparr>]\<rparr>)"
    using append_identifier_fallback [where s = stationed_stream and st = cola
        and gps = checking_geodesy and ds = empty_dataset]
    by (simp add: m c empty_dataset_def)
  have l: "Dataset_append checking_geodesy empty_dataset (PyStream located_stream) =
     (Inr [],
      \<lparr>dataset_id = None,
       streams = [located_stream\<lparr>stream_id := Some ''IU.COLA.10'', tags := Some [],
                                 distance_in_m := Some 1000, azimuth := Some 90\<rparr>]\<rparr>)"
    using append_identifier_fallback [where s = located_stream and st = cola and og = event
        and gps = checking_geodesy and ds = empty_dataset and d = 1000 and a = 90 and b = 270]
    by (simp add: m c g empty_dataset_def)
  have x: "Dataset_append checking_geodesy empty_dataset (PyStream misplaced_stream) =
     (Inl ValueError, empty_dataset)"
    using append_identifier_fallback [where s = misplaced_stream and st = cola
        and og = misplaced_event and gps = checking_geodesy and ds = empty_dataset
        and e = ValueError]
    by (simp add: m g)
  show ?thesis
    using t b s l x by simp
qed

text \<open>
  C9 as stated fails in its second half: a Stream with one trace, station metadata
  and an origin whose latitude is out of range is not appended, because the geodesy
  routine raises.
\<close>

theorem append_geodesy_counterexample:
  "traces misplaced_stream \<noteq> [] \<and>
   Dataset_append checking_geodesy empty_dataset (PyStream misplaced_stream) =
     (Inl ValueError, empty_dataset)"
  by (simp add: Dataset_append_def prepare_stream_def unique_identifier_def Let_def
      misplaced_stream_def bare_stream_def checking_geodesy_def misplaced_event_def cola_def)

section \<open>Properties of the constructor and of Dataset.select\<close>

lemma append_all_streams:
  "list_all2 (\<lambda>s r. prepare_stream gps s = Inr r) ss rs \<Longrightarrow>
   append_all gps ds (map PyStream ss) =
     (Inr (concat (map snd rs)), ds\<lparr>streams := streams ds @ map fst rs\<rparr>)"
proof (induction ss rs arbitrary: ds rule: list_all2_induct)
  case Nil
  then show ?case by simp
next
  case (Cons s ss r rs)
  obtain s' w where r: "r = (s', w)" by (cases r)
  have "Dataset_append gps ds (PyStream s) = (Inr w, ds\<lparr>streams := streams ds @ [s']\<rparr>)"
    using Cons.hyps(1) r by (simp add: Dataset_append_def)
  then show ?case
    using Cons.IH [of "ds\<lparr>streams := streams ds @ [s']\<rparr>"] r by simp
qed

lemma Dataset_init_streams:
  assumes "list_all2 (\<lambda>s r. prepare_stream gps s = Inr r) ss rs"
  shows "Dataset_init gps (map PyStream ss) i [] =
           Inr (\<lparr>dataset_id = i, streams = map fst rs\<rparr>, concat (map snd rs))"
  using append_all_streams [OF assms, of "\<lparr>dataset_id = i, streams = []\<rparr>"]
  by (simp add: Dataset_init_def)

lemma Dataset_init_updated:
  assumes "\<forall>s\<in>set ss. \<exists>w. prepare_stream gps s = Inr (upd s, w)"
  shows "\<exists>w. Dataset_init gps (map PyStream ss) i [] =
           Inr (\<lparr>dataset_id = i, streams = map upd ss\<rparr>, w)"
proof -
  have "\<exists>rs. list_all2 (\<lambda>s r. prepare_stream gps s = Inr r) ss rs \<and> map fst rs = map upd ss"
    using assms
  proof (induction ss)
    case Nil
    then show ?case by simp
  next
    case (Cons s ss)
    then obtain rs where rs: "list_all2 (\<lambda>s r. prepare_stream gps s = Inr r) ss rs"
      "map fst rs = map upd ss"
      by auto
    from Cons.prems obtain w where "prepare_stream gps s = Inr (upd s, w)" by auto
    then have "list_all2 (\<lambda>s r. prepare_stream gps s = Inr r) (s # ss) ((upd s, w) # rs)"
      using rs(1) by simp
    then show ?case using rs(2) by (intro exI [of _ "(upd s, w) # rs"]) simp
  qed
  then obtain rs where "list_all2 (\<lambda>s r. prepare_stream gps s = Inr r) ss rs"
    "map fst rs = map upd ss"
    by blast
  then show ?thesis using Dataset_init_streams [of gps ss rs i] by simp
qed

lemma filter_streams_total:
  "\<forall>s\<in>set ss. p s = Inr (q s) \<Longrightarrow> filter_streams p ss = Inr (filter q ss)"
  by (induction ss) simp_all

lemma select_by_total:
  assumes "\<forall>s\<in>set (streams ds). p s = Inr (q s)"
    and "\<forall>s\<in>set (streams ds). q s \<longrightarrow> (\<exists>w. prepare_stream gps s = Inr (upd s, w))"
  shows "\<exists>w. select_by gps ds p =
           Inr (\<lparr>dataset_id = dataset_id ds, streams = map upd (filter q (streams ds))\<rparr>, w)"
proof -
  have "\<forall>s\<in>set (filter q (streams ds)). \<exists>w. prepare_stream gps s = Inr (upd s, w)"
    using assms(2) by simp
  from Dataset_init_updated [OF this, of "dataset_id ds"] show ?thesis
    by (simp add: select_by_def filter_streams_total [OF assms(1)])
qed

text \<open>
  C3 (as amended). \<^verbatim>\<open>Dataset.select\<close> called with neither an origin nor a station
  raises a plain \<^verbatim>\<open>Exception\<close>. Called with at least one criterion, on a Dataset
  whose records carry the metadata that the comparison reads (the station of every
  record when a station is given; the origin of every record when only an origin is
  given, and of the records with the given station when both are given) and whose
  matching records \<^verbatim>\<open>append\<close> accepts, it returns a Dataset with the identifier of
  the source that contains exactly the records equal to the given origin and/or
  station (both when both are given), in original order, each as \<^verbatim>\<open>append\<close> updates
  it when the result is built.
\<close>

theorem select_matching_records:
  assumes "stn \<noteq> None \<longrightarrow> (\<forall>s\<in>set (streams ds). stream_station s \<noteq> None)"
    and "origin \<noteq> None \<longrightarrow>
           (\<forall>s\<in>set (streams ds). stn = None \<or> stream_station s = stn \<longrightarrow> stream_origin s \<noteq> None)"
    and "\<forall>s\<in>set (streams ds).
           (origin = None \<or> stream_origin s = origin) \<and> (stn = None \<or> stream_station s = stn) \<longrightarrow>
           (\<exists>w. prepare_stream gps s = Inr (upd s, w))"
  shows "Dataset_select gps ds None None = Inl Exception \<and>
    (origin \<noteq> None \<or> stn \<noteq> None \<longrightarrow>
      (\<exists>w. Dataset_select gps ds origin stn =
         Inr (\<lparr>dataset_id = dataset_id ds,
               streams = map upd
                 (filter (\<lambda>s. (origin = None \<or> stream_origin s = origin) \<and>
                               (stn = None \<or> stream_station s = stn)) (streams ds))\<rparr>, w)))"
proof (cases origin; cases stn)
  fix og st
  assume *: "origin = Some og" "stn = Some st"
  have "\<forall>s\<in>set (streams ds). station_and_origin_match st og s =
          Inr (stream_origin s = origin \<and> stream_station s = stn)"
    using assms(1,2) *
    by (auto simp: station_and_origin_match_def station_matches_def origin_matches_def
        split: option.splits bool.splits)
  moreover have "\<forall>s\<in>set (streams ds). stream_origin s = origin \<and> stream_station s = stn \<longrightarrow>
      (\<exists>w. prepare_stream gps s = Inr (upd s, w))"
    using assms(3) * by simp
  ultimately show ?thesis
    using select_by_total [of ds "station_and_origin_match st og"
        "\<lambda>s. stream_origin s = origin \<and> stream_station s = stn" gps upd] *
    by (simp add: Dataset_select_def)
next
  fix st
  assume *: "origin = None" "stn = Some st"
  have "\<forall>s\<in>set (streams ds). station_matches st s = Inr (stream_station s = stn)"
    using assms(1) * by (auto simp: station_matches_def split: option.splits)
  moreover have "\<forall>s\<in>set (streams ds). stream_station s = stn \<longrightarrow>
      (\<exists>w. prepare_stream gps s = Inr (upd s, w))"
    using assms(3) * by simp
  ultimately show ?thesis
    using select_by_total [of ds "station_matches st" "\<lambda>s. stream_station s = stn" gps upd] *
    by (simp add: Dataset_select_def)
next
  fix og
  assume *: "origin = Some og" "stn = None"
  have "\<forall>s\<in>set (streams ds). origin_matches og s = Inr (stream_origin s = origin)"
    using assms(2) * by (auto simp: origin_matches_def split: option.splits)
  moreover have "\<forall>s\<in>set (streams ds). stream_origin s = origin \<longrightarrow>
      (\<exists>w. prepare_stream gps s = Inr (upd s, w))"
    using assms(3) * by simp
  ultimately show ?thesis
    using select_by_total [of ds "origin_matches og" "\<lambda>s. stream_origin s = origin" gps upd] *
    by (simp add: Dataset_select_def)
qed (simp add: Dataset_select_def)

lemma example_streams_prepared:
  "prepare_stream constant_geodesy cola_stream = Inr (cola_stream, [])"
  "prepare_stream constant_geodesy anmo_stream = Inr (anmo_stream, [])"
  by (simp_all add: prepare_stream_def unique_identifier_def join_codes_def Let_def
      constant_geodesy_def cola_stream_def anmo_stream_def cola_def anmo_def event_def)

lemma example_stations_differ: "cola \<noteq> anmo"
  by (simp add: cola_def anmo_def)

lemma located_stream_prepared:
  "prepare_stream constant_geodesy located_stream =
     Inr (located_stream\<lparr>stream_id := Some ''IU.COLA.10'', tags := Some [],
                         distance_in_m := Some 1000, azimuth := Some 90\<rparr>, [])"
  by (simp add: prepare_stream_def unique_identifier_def join_codes_def Let_def
      constant_geodesy_def located_stream_def bare_stream_def cola_def)

theorem select_matching_records_witness:
  "Dataset_select constant_geodesy two_stations None None = Inl Exception \<and>
   (\<exists>w. Dataset_select constant_geodesy two_stations None (Some anmo) =
      Inr (\<lparr>dataset_id = Some ''20090407201255351'', streams = [anmo_stream]\<rparr>, w)) \<and>
   (\<exists>w. Dataset_select constant_geodesy two_stations (Some event) None =
      Inr (\<lparr>dataset_id = Some ''20090407201255351'', streams = [cola_stream, anmo_stream]\<rparr>, w)) \<and>
   (\<exists>w. Dataset_select constant_geodesy unlocated_first (Some event) (Some cola) =
      Inr (\<lparr>dataset_id = Some ''20090407201255351'', streams = [cola_stream]\<rparr>, w)) \<and>
   (\<exists>w. Dataset_select constant_geodesy one_located None (Some cola) =
      Inr (\<lparr>dataset_id = None,
            streams = [located_stream\<lparr>stream_id := Some ''IU.COLA.10'', tags := Some [],
                                      distance_in_m := Some 1000, azimuth := Some 90\<rparr>]\<rparr>, w))"
proof -
  have two: "streams two_stations = [cola_stream, anmo_stream]"
    "dataset_id two_stations = Some ''20090407201255351''"
    by (simp_all add: two_stations_def)
  have unl: "streams unlocated_first =
      [anmo_stream\<lparr>stream_origin := None, distance_in_m := None, azimuth := None\<rparr>, cola_stream]"
    "dataset_id unlocated_first = Some ''20090407201255351''"
    by (simp_all add: unlocated_first_def)
  have loc: "streams one_located = [located_stream]" "dataset_id one_located = None"
    by (simp_all add: one_located_def)
  have meta: "stream_station cola_stream = Some cola" "stream_station anmo_stream = Some anmo"
    "stream_origin cola_stream = Some event" "stream_origin anmo_stream = Some event"
    "stream_station located_stream = Some cola"
    by (simp_all add: cola_stream_def anmo_stream_def located_stream_def bare_stream_def)
  note d = example_stations_differ
  have a: "\<exists>w. Dataset_select constant_geodesy two_stations None (Some anmo) =
      Inr (\<lparr>dataset_id = Some ''20090407201255351'', streams = [anmo_stream]\<rparr>, w)"
    using select_matching_records [where ds = two_stations and gps = constant_geodesy
        and stn = "Some anmo" and origin = None and upd = "\<lambda>s. s"]
    by (simp add: two meta d example_streams_prepared)
  have b: "\<exists>w. Dataset_select constant_geodesy two_stations (Some event) None =
      Inr (\<lparr>dataset_id = Some ''20090407201255351'', streams = [cola_stream, anmo_stream]\<rparr>, w)"
    using select_matching_records [where ds = two_stations and gps = constant_geodesy
        and stn = None and origin = "Some event" and upd = "\<lambda>s. s"]
    by (simp add: two meta example_streams_prepared)
  have c: "\<exists>w. Dataset_select constant_geodesy unlocated_first (Some event) (Some cola) =
      Inr (\<lparr>dataset_id = Some ''20090407201255351'', streams = [cola_stream]\<rparr>, w)"
    using select_matching_records [where ds = unlocated_first and gps = constant_geodesy
        and stn = "Some cola" and origin = "Some event" and upd = "\<lambda>s. s"]
    by (simp add: unl meta d d [symmetric] example_streams_prepared)
  have e: "\<exists>w. Dataset_select constant_geodesy one_located None (Some cola) =
      Inr (\<lparr>dataset_id = None,
            streams = [located_stream\<lparr>stream_id := Some ''IU.COLA.10'', tags := Some [],
                                      distance_in_m := Some 1000, azimuth := Some 90\<rparr>]\<rparr>, w)"
    using select_matching_records [where ds = one_located and gps = constant_geodesy
        and stn = "Some cola" and origin = None
        and upd = "\<lambda>s. s\<lparr>stream_id := Some ''IU.COLA.10'', tags := Some [],
                           distance_in_m := Some 1000, azimuth := Some 90\<rparr>"]
    by (simp add: loc meta located_stream_prepared)
  have n: "Dataset_select constant_geodesy two_stations None None = Inl Exception"
    by (simp add: Dataset_select_def)
  show ?thesis
    using n a b c e by blast
qed

text \<open>
  C3 as stated fails: without a criterion the exception is not ValueError; with a
  station criterion, a Dataset holding a record without station metadata (which
  \<^verbatim>\<open>append\<close> accepts with a warning) yields AttributeError instead of a Dataset; with an
  origin criterion, a matching record that \<^verbatim>\<open>append\<close> rejects makes the call fail;
  and a matching record whose metadata were attached after it was read is returned
  with identifier, tag list, distance and azimuth set, not as it was.
\<close>

theorem select_counterexample:
  "Dataset_select constant_geodesy two_stations None None \<noteq> Inl ValueError \<and>
   Dataset_select constant_geodesy one_bare None (Some anmo) = Inl AttributeError \<and>
   Dataset_select constant_geodesy one_orphan (Some event) None = Inl IndexError \<and>
   Dataset_select constant_geodesy one_located None (Some cola) =
     Inr (\<lparr>dataset_id = None,
           streams = [located_stream\<lparr>stream_id := Some ''IU.COLA.10'', tags := Some [],
                                     distance_in_m := Some 1000, azimuth := Some 90\<rparr>]\<rparr>, []) \<and>
   located_stream\<lparr>stream_id := Some ''IU.COLA.10'', tags := Some [],
                  distance_in_m := Some 1000, azimuth := Some 90\<rparr> \<noteq> located_stream"
proof -
  have 1: "Dataset_select constant_geodesy two_stations None None \<noteq> Inl ValueError"
    by (simp add: Dataset_select_def)
  have 2: "Dataset_select constant_geodesy one_bare None (Some anmo) = Inl AttributeError"
    by (simp add: Dataset_select_def select_by_def station_matches_def one_bare_def
        bare_stream_def)
  have 3: "Dataset_select constant_geodesy one_orphan (Some event) None = Inl IndexError"
    by (simp add: Dataset_select_def select_by_def origin_matches_def one_orphan_def
        traceless_stream_def Dataset_init_def Dataset_append_def prepare_empty_no_station)
  have "station_matches cola located_stream = Inr True"
    by (simp add: station_matches_def located_stream_def bare_stream_def)
  then have 4: "Dataset_select constant_geodesy one_located None (Some cola) =
     Inr (\<lparr>dataset_id = None,
           streams = [located_stream\<lparr>stream_id := Some ''IU.COLA.10'', tags := Some [],
                                     distance_in_m := Some 1000, azimuth := Some 90\<rparr>]\<rparr>, [])"
    by (simp add: Dataset_select_def select_by_def one_located_def Dataset_init_def
        Dataset_append_def located_stream_prepared)
  have "stream_id located_stream = None"
    by (simp add: located_stream_def bare_stream_def)
  then have 5: "located_stream\<lparr>stream_id := Some ''IU.COLA.10'', tags := Some [],
                  distance_in_m := Some 1000, azimuth := Some 90\<rparr> \<noteq> located_stream"
    by (auto dest: arg_cong [where f = stream_id])
  show ?thesis
    using 1 2 3 4 5 by blast
qed

section \<open>Properties of Dataset.map\<close>






section \<open>Properties of Dataset.tag\_add\<close>

lemma tag_add_loop_tagged:
  "\<forall>s\<in>set ss. tags s \<noteq> None \<Longrightarrow>
   tag_add_loop t ss =
     (Inr (), map (\<lambda>s. s\<lparr>tags := Some (if t \<in> set (the (tags s)) then the (tags s)
                                          else the (tags s) @ [t])\<rparr>) ss)"
  by (induction ss) (auto simp: Let_def)

text \<open>
  C8. \<^verbatim>\<open>Dataset.tag_add(tag)\<close> fails with TypeError, leaving the Dataset as it was,
  whenever \<^verbatim>\<open>tag\<close> is not a string. For a string tag and a Dataset whose records carry
  a tag list (as every record does once appended), it appends the tag to each
  record's tag list only when it is not already there, and a second call with the
  same tag changes nothing.
\<close>

theorem tag_add_idempotent:
  "(\<not> is_str tag \<longrightarrow> Dataset_tag_add ds tag = (Inl TypeError, ds)) \<and>
   ((\<forall>s\<in>set (streams ds). tags s \<noteq> None) \<longrightarrow>
      (\<exists>ds'. Dataset_tag_add ds (PyStr t) = (Inr (), ds') \<and>
         dataset_id ds' = dataset_id ds \<and>
         streams ds' =
           map (\<lambda>s. s\<lparr>tags := Some (if t \<in> set (the (tags s)) then the (tags s)
                                      else the (tags s) @ [t])\<rparr>) (streams ds) \<and>
         Dataset_tag_add ds' (PyStr t) = (Inr (), ds')))"
proof (intro conjI impI)
  assume "\<not> is_str tag"
  then show "Dataset_tag_add ds tag = (Inl TypeError, ds)"
    by (cases tag) (simp_all add: Dataset_tag_add_def)
next
  let ?upd = "\<lambda>s. s\<lparr>tags := Some (if t \<in> set (the (tags s)) then the (tags s)
                                   else the (tags s) @ [t])\<rparr>"
  let ?ds' = "ds\<lparr>streams := map ?upd (streams ds)\<rparr>"
  assume tagged: "\<forall>s\<in>set (streams ds). tags s \<noteq> None"
  have first: "Dataset_tag_add ds (PyStr t) = (Inr (), ?ds')"
    by (simp add: Dataset_tag_add_def tag_add_loop_tagged [OF tagged])
  have "\<forall>s\<in>set (map ?upd (streams ds)). tags s \<noteq> None"
    by simp
  from tag_add_loop_tagged [OF this, of t]
  have "tag_add_loop t (map ?upd (streams ds)) = (Inr (), map ?upd (map ?upd (streams ds)))" .
  moreover have "map ?upd (map ?upd (streams ds)) = map ?upd (streams ds)"
    by (simp add: comp_def)
  ultimately have second: "Dataset_tag_add ?ds' (PyStr t) = (Inr (), ?ds')"
    by (simp add: Dataset_tag_add_def)
  show "\<exists>ds'. Dataset_tag_add ds (PyStr t) = (Inr (), ds') \<and>
         dataset_id ds' = dataset_id ds \<and>
         streams ds' = map ?upd (streams ds) \<and>
         Dataset_tag_add ds' (PyStr t) = (Inr (), ds')"
    using first second by (intro exI [of _ ?ds']) simp
qed

theorem tag_add_idempotent_witness:
  "Dataset_tag_add two_stations (PyInt 7) = (Inl TypeError, two_stations) \<and>
   Dataset_tag_add two_stations (PyStr ''bw'') = (Inr (), two_stations_bw) \<and>
   Dataset_tag_add two_stations_bw (PyStr ''bw'') = (Inr (), two_stations_bw)"
proof -
  have tagged: "\<forall>s\<in>set (streams two_stations). tags s \<noteq> None"
    by (simp add: two_stations_def cola_stream_def anmo_stream_def)
  have upd: "map (\<lambda>s. s\<lparr>tags := Some (if ''bw'' \<in> set (the (tags s)) then the (tags s)
                                         else the (tags s) @ [''bw''])\<rparr>) (streams two_stations) =
      streams two_stations_bw"
    by (simp add: two_stations_def two_stations_bw_def cola_stream_def anmo_stream_def)
  from tag_add_idempotent [of "PyInt 7" two_stations "''bw''"] tagged
  obtain ds' where ds': "Dataset_tag_add two_stations (PyInt 7) = (Inl TypeError, two_stations)"
    "Dataset_tag_add two_stations (PyStr ''bw'') = (Inr (), ds')"
    "dataset_id ds' = dataset_id two_stations"
    "streams ds' = streams two_stations_bw"
    "Dataset_tag_add ds' (PyStr ''bw'') = (Inr (), ds')"
    unfolding upd by auto
  have "ds' = two_stations_bw"
    using ds'(3,4) by (cases ds') (simp add: two_stations_def two_stations_bw_def)
  then show ?thesis using ds' by simp
qed

section \<open>Properties of Dataset.sort\_by\_distance\<close>

lemma sort_keys_total:
  "\<forall>x\<in>set xs. key x = Inr (k x) \<Longrightarrow> sort_keys key xs = Inr (map k xs)"
  by (induction xs) simp_all

lemma insort_key_keyed:
  "insort_key fst (k x, x) (map (\<lambda>y. (k y, y)) ys) = map (\<lambda>y. (k y, y)) (insort_key k x ys)"
  by (induction ys) simp_all

lemma sort_key_keyed:
  "sort_key fst (map (\<lambda>y. (k y, y)) xs) = map (\<lambda>y. (k y, y)) (sort_key k xs)"
  by (induction xs) (simp_all add: insort_key_keyed)

lemma list_sort_total:
  assumes "\<forall>x\<in>set xs. key x = Inr (k x)"
  shows "list_sort key reverse xs =
           Inr (if reverse then rev (sort_key k (rev xs)) else sort_key k xs)"
proof -
  have z: "zip (map k xs) xs = map (\<lambda>y. (k y, y)) xs"
    by (induction xs) simp_all
  have fwd: "map snd (sort_key fst (map (\<lambda>y. (k y, y)) ys)) = sort_key k ys" for ys
    by (simp add: sort_key_keyed comp_def)
  have r: "rev (map (\<lambda>y. (k y, y)) xs) = map (\<lambda>y. (k y, y)) (rev xs)"
    by (simp add: rev_map)
  have "sort_key fst (rev (map (\<lambda>y. (k y, y)) xs)) = map (\<lambda>y. (k y, y)) (sort_key k (rev xs))"
    by (simp only: r sort_key_keyed)
  then have bwd: "map snd (rev (sort_key fst (rev (map (\<lambda>y. (k y, y)) xs)))) =
      rev (sort_key k (rev xs))"
    by (simp add: rev_map comp_def)
  show ?thesis
  proof (cases reverse)
    case True
    then show ?thesis
      using sort_keys_total [OF assms] bwd by (simp only: list_sort_def z Let_def sum.case if_True)
  next
    case False
    then show ?thesis
      using sort_keys_total [OF assms] fwd [of xs]
      by (simp only: list_sort_def z Let_def sum.case if_False)
  qed
qed

lemma sort_key_twice: "sort_key k (sort_key k xs) = sort_key k xs"
  by (simp add: sort_key_id_if_sorted)

lemma sort_key_fixed_iff: "sort_key k xs = xs \<longleftrightarrow> sorted (map k xs)"
  by (metis sort_key_id_if_sorted sorted_sort_key)

text \<open>
  C5 (as amended). For every Dataset whose records all carry a numeric
  \<^verbatim>\<open>distance_in_m\<close>, \<^verbatim>\<open>sort_by_distance\<close> is idempotent in either direction: applying
  it twice, ascending or reversed, yields the record order of applying it once. The
  sort leaves the Dataset as it was exactly when the records already were in
  ascending order of distance (for the reversed sort: in descending order, read from
  the end), so the reversed sort applied twice does not in general restore the
  original order.
\<close>

theorem sort_by_distance_idempotent:
  assumes "\<forall>s\<in>set (streams ds). distance_in_m s \<noteq> None"
  shows "\<exists>ds'. Dataset_sort_by_distance ds reverse = (Inr (), ds') \<and>
           Dataset_sort_by_distance ds' reverse = (Inr (), ds') \<and>
           sorted (map (\<lambda>s. the (distance_in_m s))
                    (if reverse then rev (streams ds') else streams ds')) \<and>
           (ds' = ds \<longleftrightarrow>
              sorted (map (\<lambda>s. the (distance_in_m s))
                       (if reverse then rev (streams ds) else streams ds)))"
proof -
  let ?k = "\<lambda>s. the (distance_in_m s)"
  let ?srt = "\<lambda>xs. if reverse then rev (sort_key ?k (rev xs)) else sort_key ?k xs"
  let ?ds' = "ds\<lparr>streams := ?srt (streams ds)\<rparr>"
  have keys: "\<forall>s\<in>set (streams ds). distance_key s = Inr (?k s)"
    using assms by (auto simp: distance_key_def)
  have first: "Dataset_sort_by_distance ds reverse = (Inr (), ?ds')"
    using list_sort_total [OF keys, of reverse]
    by (simp add: Dataset_sort_by_distance_def Dataset_sort_by_function_def)
  have "\<forall>s\<in>set (?srt (streams ds)). distance_key s = Inr (?k s)"
    using keys by simp
  from list_sort_total [OF this, of reverse]
  have "list_sort distance_key reverse (?srt (streams ds)) = Inr (?srt (?srt (streams ds)))" .
  moreover have "?srt (?srt (streams ds)) = ?srt (streams ds)"
    by (simp add: sort_key_twice)
  ultimately have second: "Dataset_sort_by_distance ?ds' reverse = (Inr (), ?ds')"
    by (simp add: Dataset_sort_by_distance_def Dataset_sort_by_function_def)
  have ordered: "sorted (map ?k (if reverse then rev (streams ?ds') else streams ?ds'))"
    by simp
  have "?srt (streams ds) = streams ds \<longleftrightarrow>
      sorted (map ?k (if reverse then rev (streams ds) else streams ds))"
  proof (cases reverse)
    case True
    have "rev (sort_key ?k (rev (streams ds))) = streams ds \<longleftrightarrow>
        sort_key ?k (rev (streams ds)) = rev (streams ds)"
      by (metis rev_rev_ident)
    then show ?thesis using True by (simp add: sort_key_fixed_iff)
  next
    case False
    then show ?thesis by (simp add: sort_key_fixed_iff)
  qed
  moreover have "?ds' = ds \<longleftrightarrow> ?srt (streams ds) = streams ds"
    by (cases ds) auto
  ultimately have same: "?ds' = ds \<longleftrightarrow>
      sorted (map ?k (if reverse then rev (streams ds) else streams ds))"
    by simp
  show ?thesis
    using first second ordered same by (intro exI [of _ ?ds']) blast
qed

lemma example_distances:
  "distance_in_m cola_stream = Some 1000" "distance_in_m far_stream = Some 2000"
  by (simp_all add: cola_stream_def far_stream_def anmo_stream_def)

lemma reversed_sort_examples:
  "Dataset_sort_by_distance near_far True = (Inr (), far_near)"
  "Dataset_sort_by_distance far_near True = (Inr (), far_near)"
  by (simp_all add: Dataset_sort_by_distance_def Dataset_sort_by_function_def list_sort_def
      distance_key_def example_distances near_far_def far_near_def)

theorem sort_by_distance_idempotent_witness:
  "\<exists>ds'. Dataset_sort_by_distance near_far True = (Inr (), ds') \<and>
     Dataset_sort_by_distance ds' True = (Inr (), ds') \<and> ds' = far_near \<and> ds' \<noteq> near_far"
proof -
  have "\<forall>s\<in>set (streams near_far). distance_in_m s \<noteq> None"
    by (simp add: near_far_def example_distances)
  from sort_by_distance_idempotent [OF this, of True]
  obtain ds' where "Dataset_sort_by_distance near_far True = (Inr (), ds')"
    "Dataset_sort_by_distance ds' True = (Inr (), ds')"
    "ds' = near_far \<longleftrightarrow> sorted (map (\<lambda>s. the (distance_in_m s)) (rev (streams near_far)))"
    by auto
  moreover have "\<not> sorted (map (\<lambda>s. the (distance_in_m s)) (rev (streams near_far)))"
    by (simp add: near_far_def example_distances)
  ultimately show ?thesis
    using reversed_sort_examples(1) by auto
qed

text \<open>
  C5 as stated fails: two records in ascending order of distance are in descending
  order after the reversed sort, and stay so when it is applied again.
\<close>

theorem reversed_sort_twice_counterexample:
  "distance_in_m cola_stream = Some 1000 \<and> distance_in_m far_stream = Some 2000 \<and>
   snd (Dataset_sort_by_distance (snd (Dataset_sort_by_distance near_far True)) True) \<noteq> near_far"
proof -
  have "cola_stream \<noteq> far_stream"
    using example_distances by auto
  then have "far_near \<noteq> near_far"
    by (simp add: near_far_def far_near_def)
  then show ?thesis
    by (simp add: reversed_sort_examples example_distances)
qed

section \<open>Properties of Dataset.max\<close>

text \<open>An empty Dataset yields minus infinity.\<close>

lemma Dataset_max_empty: "Dataset_max \<lparr>dataset_id = i, streams = []\<rparr> = Inr NegInf"
  by (simp add: Dataset_max_def)

text \<open>A trace whose weight is falsy never contributes.\<close>

lemma max_over_traces_weight_gating:
  "max_over_traces m (filter (\<lambda>tr. \<not> weight_is_falsy tr) trs) = max_over_traces m trs"
  by (induction trs arbitrary: m) (simp_all split: sum.splits)

lemma max_over_streams_weight_gating:
  "max_over_streams m (map (\<lambda>s. s\<lparr>traces := filter (\<lambda>tr. \<not> weight_is_falsy tr) (traces s)\<rparr>) ss) =
   max_over_streams m ss"
  by (induction ss arbitrary: m) (simp_all add: max_over_traces_weight_gating split: sum.splits)

text \<open>
  The example of the specification: of two single-trace records, one with weight 0
  and one with weight 1 and peak absolute amplitude 5, only the second counts.
\<close>

lemma Dataset_max_weight_example:
  assumes "traces s1 = [t1]" "weight t1 = Some 0"
    and "traces s2 = [t2]" "weight t2 = Some 1"
    and "array_max (map abs (data t2)) = Inr 5"
  shows "Dataset_max \<lparr>dataset_id = i, streams = [s1, s2]\<rparr> = Inr (Finite 5)"
proof -
  from assms(5) obtain x xs where "data t2 = x # xs"
    by (cases "data t2") auto
  then show ?thesis
    using assms by (simp add: Dataset_max_def weight_is_falsy_def)
qed

text \<open>
  C1. \<^verbatim>\<open>Dataset.max()\<close> is documented to return the maximum absolute amplitude over
  all traces. The code compares the signed maximum of a trace with the running
  maximum, so a trace whose largest absolute amplitude is a negative sample is passed
  over: for a record peaking at \<open>3\<close> followed by a record with the sample \<open>-7\<close> the
  code returns \<open>3\<close>, while the maximum absolute amplitude is \<open>7\<close>.
\<close>

theorem Dataset_max_misses_negative_peak:
  "Dataset_max negative_peak = Inr (Finite 3) \<and> max_abs_amplitude negative_peak = Finite 7"
  by (simp add: Dataset_max_def max_abs_amplitude_def counted_samples_def negative_peak_def
      bare_stream_def anmo_trace_def weight_is_falsy_def)

section \<open>Properties of the min and max projections\<close>



lemma seven_axes:
  assumes "length (s :: nat list) = 7"
  shows "prod_list s = prod_list (take 6 s) * s ! 6" "last s = s ! 6" "drop 7 s = []"
proof -
  have "s ! 6 # drop (Suc 6) s = drop 6 s"
    using assms by (intro Cons_nth_drop_Suc) simp
  then have "drop 6 s = [s ! 6]"
    using assms by simp
  then have dec: "s = take 6 s @ [s ! 6]"
    by (metis append_take_drop_id)
  from dec show "prod_list s = prod_list (take 6 s) * s ! 6"
    by (metis mult.right_neutral prod_list.Cons prod_list.Nil prod_list.append)
  from dec show "last s = s ! 6" by (metis last_snoc)
  show "drop 7 s = []" using assms by simp
qed

lemma offset_in_range: "j < p \<Longrightarrow> i < n \<Longrightarrow> j * n + i < p * (n :: nat)"
proof -
  assume a: "j < p" "i < n"
  then have "j * n + i < Suc j * n" by simp
  also have "\<dots> \<le> p * n" using a(1) by (intro mult_le_mono1) simp
  finally show ?thesis .
qed









lemma split_offset:
  assumes "j < p * (n :: nat)"
  shows "\<exists>a<p. \<exists>b<n. j = a * n + b"
proof -
  have "0 < n" using assms by (cases n) auto
  then have "j mod n < n" by simp
  moreover have "j div n < p"
    using assms by (simp add: less_mult_imp_div_less)
  moreover have "j = (j div n) * n + j mod n" by simp
  ultimately show ?thesis by blast
qed

lemma row_major_offsets:
  "{0..<prod_list [n1, n2, n3, n4, n5, n6]} =
   {((((i1 * n2 + i2) * n3 + i3) * n4 + i4) * n5 + i5) * n6 + i6 | i1 i2 i3 i4 i5 i6.
      i1 < n1 \<and> i2 < n2 \<and> i3 < n3 \<and> i4 < n4 \<and> i5 < n5 \<and> i6 < (n6 :: nat)}"
proof (intro equalityI subsetI)
  fix j assume "j \<in> {0..<prod_list [n1, n2, n3, n4, n5, n6]}"
  then have "j < n1 * n2 * n3 * n4 * n5 * n6" by (simp add: mult.assoc)
  then obtain j5 i6 where 6: "j5 < n1 * n2 * n3 * n4 * n5" "i6 < n6" "j = j5 * n6 + i6"
    using split_offset by blast
  then obtain j4 i5 where 5: "j4 < n1 * n2 * n3 * n4" "i5 < n5" "j5 = j4 * n5 + i5"
    using split_offset by blast
  then obtain j3 i4 where 4: "j3 < n1 * n2 * n3" "i4 < n4" "j4 = j3 * n4 + i4"
    using split_offset by blast
  then obtain j2 i3 where 3: "j2 < n1 * n2" "i3 < n3" "j3 = j2 * n3 + i3"
    using split_offset by blast
  then obtain i1 i2 where 2: "i1 < n1" "i2 < n2" "j2 = i1 * n2 + i2"
    using split_offset by blast
  have "j = ((((i1 * n2 + i2) * n3 + i3) * n4 + i4) * n5 + i5) * n6 + i6"
    using 2 3 4 5 6 by simp
  then show "j \<in> {((((i1 * n2 + i2) * n3 + i3) * n4 + i4) * n5 + i5) * n6 + i6 | i1 i2 i3 i4 i5 i6.
      i1 < n1 \<and> i2 < n2 \<and> i3 < n3 \<and> i4 < n4 \<and> i5 < n5 \<and> i6 < n6}"
    using 2 3 4 5 6 by blast
next
  fix j assume "j \<in> {((((i1 * n2 + i2) * n3 + i3) * n4 + i4) * n5 + i5) * n6 + i6 | i1 i2 i3 i4 i5 i6.
      i1 < n1 \<and> i2 < n2 \<and> i3 < n3 \<and> i4 < n4 \<and> i5 < n5 \<and> i6 < n6}"
  then obtain i1 i2 i3 i4 i5 i6 where
    j: "j = ((((i1 * n2 + i2) * n3 + i3) * n4 + i4) * n5 + i5) * n6 + i6"
    and b: "i1 < n1" "i2 < n2" "i3 < n3" "i4 < n4" "i5 < n5" "i6 < n6"
    by blast
  have "i1 * n2 + i2 < n1 * n2" using b by (intro offset_in_range)
  then have "(i1 * n2 + i2) * n3 + i3 < n1 * n2 * n3" using b by (intro offset_in_range)
  then have "((i1 * n2 + i2) * n3 + i3) * n4 + i4 < n1 * n2 * n3 * n4"
    using b by (intro offset_in_range)
  then have "(((i1 * n2 + i2) * n3 + i3) * n4 + i4) * n5 + i5 < n1 * n2 * n3 * n4 * n5"
    using b by (intro offset_in_range)
  then have "j < n1 * n2 * n3 * n4 * n5 * n6"
    unfolding j using b by (intro offset_in_range)
  then show "j \<in> {0..<prod_list [n1, n2, n3, n4, n5, n6]}"
    by (simp add: mult.assoc)
qed




text \<open>
  When a leading axis is empty and the last axis is not, the slices have no
  elements and the reduction raises ValueError.
\<close>

lemma empty_slices_fail:
  fixes ds :: "'a::linorder DataArray"
  assumes "length (shape ds) = 7" and "prod_list (take 6 (shape ds)) = 0"
    and "0 < last (shape ds)"
  shows "min_dataarray ds = Inl ValueError" "max_dataarray ds = Inl ValueError"
proof -
  have "shape ds ! 6 = last (shape ds)"
    using seven_axes(2) [OF assms(1)] by simp
  then have "slice_seventh ds 0 = Inr []"
    using assms by (simp add: slice_seventh_def)
  then have "reduce_loop array_min array_argmin ds [0..<last (shape ds)] = Inl ValueError"
    "reduce_loop array_max array_argmax ds [0..<last (shape ds)] = Inl ValueError"
    using assms(3) by (simp_all add: upt_conv_Cons)
  moreover have "last_axis_range ds = Inr [0..<last (shape ds)]"
    using assms(1) by (auto simp: last_axis_range_def)
  ultimately show "min_dataarray ds = Inl ValueError" "max_dataarray ds = Inl ValueError"
    by (simp_all add: min_dataarray_def max_dataarray_def)
qed



section \<open>The number of axes that the depth reductions accept\<close>







lemma reduce_loop_empty_slice:
  assumes "slice_seventh ds i = Inr []" and "red [] = Inl e"
  shows "reduce_loop red arg ds (i # is) = Inl e"
  using assms by simp








section \<open>Properties of the likelihood transform\<close>

















end
